theory Spec2Isabelle
  imports Main "HOL-Library.Word"
begin

section \<open>G1 allocators (src/share/vm/gc/g1/g1Allocator.hpp)\<close>

text \<open>
  A shallow embedding of the inline code of \<^verbatim>\<open>g1Allocator.hpp\<close>: the default allocator's
  \<^verbatim>\<open>used_in_alloc_regions\<close>, the buffer class \<^verbatim>\<open>G1PLAB\<close>, and the per-worker
  \<^verbatim>\<open>G1ParGCAllocator\<close> / \<^verbatim>\<open>G1DefaultParGCAllocator\<close>.

  Conventions.
  \<^item> A \<^verbatim>\<open>HeapWord*\<close> is an address, a natural number; a pointer that may be
    \<^verbatim>\<open>NULL\<close> is an \<open>option\<close>, with \<open>None\<close> for \<^verbatim>\<open>NULL\<close>.
  \<^item> \<^verbatim>\<open>uint\<close> is a 32-bit word; \<^verbatim>\<open>intx\<close> is a 64-bit word read as a signed
    number (\<open>sint\<close>). Word counts (\<^verbatim>\<open>size_t word_sz\<close>) are natural
    numbers; no arithmetic is done on them in this header.
  \<^item> \<^verbatim>\<open>assert\<close> and \<^verbatim>\<open>guarantee\<close> are modelled with their checks switched on: a
    failed check is the error value \<open>Inl\<close>, and the function returns nothing else.
  \<^item> Mutation is explicit state passing: a member function takes the object and returns
    the updated object beside its result.
\<close>

subsection \<open>Basic types\<close>

type_synonym HeapWord_ptr = nat
type_synonym uint = "32 word"
type_synonym size_t = "64 word"
type_synonym AllocationContext_t = nat

datatype error =
    Assertion_failed string
  | Guarantee_failed string
  | Out_of_bounds_read
  | Null_dereference
  | Contract_violation string

text \<open>
  Modelled from the spec: the macros \<^verbatim>\<open>assert\<close> and \<^verbatim>\<open>guarantee\<close>
  (utilities/debug.hpp) are not among the sources. The spec calls a broken assertion a
  contract violation that is "fatal/unrecoverable (loud failure, not silently ignored)":
  the check passes when its condition holds and otherwise stops the caller with the
  message.
\<close>

definition assert :: "bool \<Rightarrow> string \<Rightarrow> error + unit" where
  "assert cond msg = (if cond then Inr () else Inl (Assertion_failed msg))"

definition guarantee :: "bool \<Rightarrow> string \<Rightarrow> error + unit" where
  "guarantee cond msg = (if cond then Inr () else Inl (Guarantee_failed msg))"

subsection \<open>Survivor alignment\<close>


subsection \<open>Destination tags\<close>

text \<open>
  Modelled from the spec: \<^verbatim>\<open>InCSetState\<close> (gc/g1/g1InCSetState.hpp) is not among the
  sources. The spec's destination tag "enumerates where an evacuated object is headed --
  survivor space or old generation (values also include not in collection set, not
  relevant to allocation)". The tag wraps a number, \<^verbatim>\<open>dest.value()\<close>, that indexes
  \<^verbatim>\<open>_alloc_buffers[InCSetState::Num]\<close>; the three tags are numbered from 0, so
  \<open>Num = 3\<close>. \<^verbatim>\<open>is_valid\<close> is what the message of the assertion in
  \<^verbatim>\<open>alloc_buffer\<close> says of it: the index is within the bounds of that array.
\<close>

datatype InCSetState = InCSetState (state_value: int)

definition NotInCSet :: int where "NotInCSet = 0"
definition Young :: int where "Young = 1"
definition Old :: int where "Old = 2"
definition Num :: int where "Num = 3"

definition is_valid :: "InCSetState \<Rightarrow> bool" where
  "is_valid dest = (0 \<le> state_value dest \<and> state_value dest < Num)"

definition is_young :: "InCSetState \<Rightarrow> bool" where
  "is_young dest = (state_value dest = Young)"

subsection \<open>The base class PLAB, as an interface\<close>

text \<open>
  \<^verbatim>\<open>class G1PLAB: public PLAB\<close>. The base class (gc/shared/plab.hpp) is not among the
  sources, so the member functions that \<^verbatim>\<open>G1PLAB\<close> and \<^verbatim>\<open>G1ParGCAllocator\<close> call on
  it are a parameter: a record of functions over the state \<open>'b\<close> of the base object
  and the statistics sink \<open>'st\<close> (\<^verbatim>\<open>PLABStats\<close>). A base member function sees the
  base object only, never the field \<^verbatim>\<open>_retired\<close>, which is private to \<^verbatim>\<open>G1PLAB\<close>.
\<close>

record ('b, 'st) PLAB =
  PLAB_set_buf :: "'b \<Rightarrow> HeapWord_ptr \<Rightarrow> 'b"
  PLAB_retire :: "'b \<Rightarrow> 'b"
  PLAB_flush_and_retire_stats :: "'b \<Rightarrow> 'st \<Rightarrow> 'b \<times> 'st"
  PLAB_allocate :: "'b \<Rightarrow> nat \<Rightarrow> HeapWord_ptr option \<times> 'b"
  PLAB_allocate_aligned :: "'b \<Rightarrow> nat \<Rightarrow> uint \<Rightarrow> HeapWord_ptr option \<times> 'b"
  PLAB_undo_allocation :: "'b \<Rightarrow> HeapWord_ptr \<Rightarrow> nat \<Rightarrow> error + 'b"

subsection \<open>G1PLAB\<close>

record 'b G1PLAB =
  PLAB_part :: 'b
  retired :: bool

text \<open>\<^verbatim>\<open>~G1PLAB\<close>: \<^verbatim>\<open>guarantee(_retired, "Allocation buffer has not been retired")\<close>.\<close>

definition G1PLAB_destroy :: "'b G1PLAB \<Rightarrow> error + unit" where
  "G1PLAB_destroy b = guarantee (retired b) ''Allocation buffer has not been retired''"

definition G1PLAB_set_buf :: "('b, 'st) PLAB \<Rightarrow> 'b G1PLAB \<Rightarrow> HeapWord_ptr \<Rightarrow> 'b G1PLAB" where
  "G1PLAB_set_buf P b buf =
     (let b1 = b\<lparr>PLAB_part := PLAB_set_buf P (PLAB_part b) buf\<rparr>
      in b1\<lparr>retired := False\<rparr>)"

definition G1PLAB_retire :: "('b, 'st) PLAB \<Rightarrow> 'b G1PLAB \<Rightarrow> 'b G1PLAB" where
  "G1PLAB_retire P b =
     (if retired b then b
      else (let b1 = b\<lparr>PLAB_part := PLAB_retire P (PLAB_part b)\<rparr>
            in b1\<lparr>retired := True\<rparr>))"

definition G1PLAB_flush_and_retire_stats ::
  "('b, 'st) PLAB \<Rightarrow> 'b G1PLAB \<Rightarrow> 'st \<Rightarrow> 'b G1PLAB \<times> 'st" where
  "G1PLAB_flush_and_retire_stats P b stats =
     (let (pb, stats1) = PLAB_flush_and_retire_stats P (PLAB_part b) stats;
          b1 = b\<lparr>PLAB_part := pb\<rparr>
      in (b1\<lparr>retired := True\<rparr>, stats1))"

text \<open>
  The member functions \<^verbatim>\<open>G1PLAB\<close> inherits and does not override: a call through a
  \<^verbatim>\<open>G1PLAB*\<close> runs the base function on the base part and leaves \<^verbatim>\<open>_retired\<close> alone.
\<close>

definition G1PLAB_allocate ::
  "('b, 'st) PLAB \<Rightarrow> 'b G1PLAB \<Rightarrow> nat \<Rightarrow> HeapWord_ptr option \<times> 'b G1PLAB" where
  "G1PLAB_allocate P b word_sz =
     (let (obj, pb) = PLAB_allocate P (PLAB_part b) word_sz
      in (obj, b\<lparr>PLAB_part := pb\<rparr>))"

definition G1PLAB_allocate_aligned ::
  "('b, 'st) PLAB \<Rightarrow> 'b G1PLAB \<Rightarrow> nat \<Rightarrow> uint \<Rightarrow> HeapWord_ptr option \<times> 'b G1PLAB" where
  "G1PLAB_allocate_aligned P b word_sz alignment_in_bytes =
     (let (obj, pb) = PLAB_allocate_aligned P (PLAB_part b) word_sz alignment_in_bytes
      in (obj, b\<lparr>PLAB_part := pb\<rparr>))"

definition G1PLAB_undo_allocation ::
  "('b, 'st) PLAB \<Rightarrow> 'b G1PLAB \<Rightarrow> HeapWord_ptr \<Rightarrow> nat \<Rightarrow> error + 'b G1PLAB" where
  "G1PLAB_undo_allocation P b obj word_sz =
     (case PLAB_undo_allocation P (PLAB_part b) obj word_sz of
        Inl e \<Rightarrow> Inl e
      | Inr pb \<Rightarrow> Inr (b\<lparr>PLAB_part := pb\<rparr>))"

text \<open>
  Sequences of calls on one buffer and its statistics sink, for the statements about
  "every sequence of buffer operations". A call stops the sequence when it fails.
\<close>

datatype G1PLAB_op =
    Op_set_buf HeapWord_ptr
  | Op_retire
  | Op_flush_and_retire_stats
  | Op_allocate nat
  | Op_allocate_aligned nat uint
  | Op_undo_allocation HeapWord_ptr nat

fun G1PLAB_step ::
  "('b, 'st) PLAB \<Rightarrow> G1PLAB_op \<Rightarrow> 'b G1PLAB \<times> 'st \<Rightarrow> error + ('b G1PLAB \<times> 'st)" where
  "G1PLAB_step P (Op_set_buf buf) (b, stats) = Inr (G1PLAB_set_buf P b buf, stats)"
| "G1PLAB_step P Op_retire (b, stats) = Inr (G1PLAB_retire P b, stats)"
| "G1PLAB_step P Op_flush_and_retire_stats (b, stats) =
     Inr (G1PLAB_flush_and_retire_stats P b stats)"
| "G1PLAB_step P (Op_allocate word_sz) (b, stats) =
     Inr (snd (G1PLAB_allocate P b word_sz), stats)"
| "G1PLAB_step P (Op_allocate_aligned word_sz al) (b, stats) =
     Inr (snd (G1PLAB_allocate_aligned P b word_sz al), stats)"
| "G1PLAB_step P (Op_undo_allocation obj word_sz) (b, stats) =
     (case G1PLAB_undo_allocation P b obj word_sz of
        Inl e \<Rightarrow> Inl e
      | Inr b1 \<Rightarrow> Inr (b1, stats))"

fun G1PLAB_run ::
  "('b, 'st) PLAB \<Rightarrow> G1PLAB_op list \<Rightarrow> 'b G1PLAB \<times> 'st \<Rightarrow> error + ('b G1PLAB \<times> 'st)" where
  "G1PLAB_run P [] s = Inr s"
| "G1PLAB_run P (x # xs) s =
     (case G1PLAB_step P x s of Inl e \<Rightarrow> Inl e | Inr s1 \<Rightarrow> G1PLAB_run P xs s1)"

subsection \<open>G1ParGCAllocator and G1DefaultParGCAllocator\<close>

text \<open>
  \<^verbatim>\<open>G1DefaultParGCAllocator\<close> holds two buffers by value and an array of pointers to
  them. A \<^verbatim>\<open>G1PLAB*\<close> that is not \<^verbatim>\<open>NULL\<close> points to one of the two members; the
  array is a list, whose declared length is \<^verbatim>\<open>InCSetState::Num\<close>. The field \<open>g1h\<close>
  stands for the heap behind \<^verbatim>\<open>_g1h\<close>, which only
  \<^verbatim>\<open>allocate_direct_or_new_plab\<close> touches.
\<close>

datatype G1PLAB_ptr = surviving_alloc_buffer_ptr | tenured_alloc_buffer_ptr

record ('b, 'h) G1DefaultParGCAllocator =
  g1h :: 'h
  survivor_alignment_bytes :: uint
  surviving_alloc_buffer :: "'b G1PLAB"
  tenured_alloc_buffer :: "'b G1PLAB"
  alloc_buffers :: "G1PLAB_ptr option list"

fun deref :: "('b, 'h) G1DefaultParGCAllocator \<Rightarrow> G1PLAB_ptr \<Rightarrow> 'b G1PLAB" where
  "deref A surviving_alloc_buffer_ptr = surviving_alloc_buffer A"
| "deref A tenured_alloc_buffer_ptr = tenured_alloc_buffer A"

fun store ::
  "('b, 'h) G1DefaultParGCAllocator \<Rightarrow> G1PLAB_ptr \<Rightarrow> 'b G1PLAB \<Rightarrow> ('b, 'h) G1DefaultParGCAllocator" where
  "store A surviving_alloc_buffer_ptr b = A\<lparr>surviving_alloc_buffer := b\<rparr>"
| "store A tenured_alloc_buffer_ptr b = A\<lparr>tenured_alloc_buffer := b\<rparr>"

text \<open>
  \<^verbatim>\<open>G1DefaultParGCAllocator::alloc_buffer\<close>. The two assertions, then the array read;
  a read outside the list is the error \<open>Out_of_bounds_read\<close>. The assertion messages
  are the source's, without the formatted tag value.
\<close>

definition alloc_buffer ::
  "('b, 'h) G1DefaultParGCAllocator \<Rightarrow> InCSetState \<Rightarrow> AllocationContext_t \<Rightarrow> error + G1PLAB_ptr option" where
  "alloc_buffer A dest context =
     (case assert (is_valid dest) ''Allocation buffer index out-of-bounds'' of
        Inl e \<Rightarrow> Inl e
      | Inr _ \<Rightarrow>
          if \<not> (0 \<le> state_value dest \<and> nat (state_value dest) < length (alloc_buffers A))
          then Inl Out_of_bounds_read
          else (case assert (alloc_buffers A ! nat (state_value dest) \<noteq> None)
                       ''Allocation buffer is NULL'' of
                  Inl e \<Rightarrow> Inl e
                | Inr _ \<Rightarrow> Inr (alloc_buffers A ! nat (state_value dest))))"

text \<open>
  \<^verbatim>\<open>G1ParGCAllocator::plab_allocate\<close>. Calling a member function through a
  \<^verbatim>\<open>NULL\<close> buffer pointer is the error \<open>Null_dereference\<close>.
\<close>

definition plab_allocate ::
  "('b, 'st) PLAB \<Rightarrow> ('b, 'h) G1DefaultParGCAllocator \<Rightarrow> InCSetState \<Rightarrow> nat \<Rightarrow> AllocationContext_t
     \<Rightarrow> error + (HeapWord_ptr option \<times> ('b, 'h) G1DefaultParGCAllocator)" where
  "plab_allocate P A dest word_sz context =
     (case alloc_buffer A dest context of
        Inl e \<Rightarrow> Inl e
      | Inr None \<Rightarrow> Inl Null_dereference
      | Inr (Some buffer) \<Rightarrow>
          if survivor_alignment_bytes A = 0 \<or> \<not> is_young dest
          then (let (obj, b1) = G1PLAB_allocate P (deref A buffer) word_sz
                in Inr (obj, store A buffer b1))
          else (let (obj, b1) = G1PLAB_allocate_aligned P (deref A buffer) word_sz
                                  (survivor_alignment_bytes A)
                in Inr (obj, store A buffer b1)))"

text \<open>
  \<^verbatim>\<open>G1ParGCAllocator::allocate\<close>. \<^verbatim>\<open>allocate_direct_or_new_plab\<close> is declared in the
  header and defined in g1Allocator.cpp, which is not among the sources: it is the
  parameter \<open>allocate_direct_or_new_plab\<close>, a function that, as its declaration's
  comment says, "returns the address of the allocated memory, NULL if not successful".
\<close>

definition allocate ::
  "(('b, 'h) G1DefaultParGCAllocator \<Rightarrow> InCSetState \<Rightarrow> nat \<Rightarrow> AllocationContext_t
      \<Rightarrow> HeapWord_ptr option \<times> ('b, 'h) G1DefaultParGCAllocator)
   \<Rightarrow> ('b, 'st) PLAB \<Rightarrow> ('b, 'h) G1DefaultParGCAllocator \<Rightarrow> InCSetState \<Rightarrow> nat \<Rightarrow> AllocationContext_t
   \<Rightarrow> error + (HeapWord_ptr option \<times> ('b, 'h) G1DefaultParGCAllocator)" where
  "allocate allocate_direct_or_new_plab P A dest word_sz context =
     (case plab_allocate P A dest word_sz context of
        Inl e \<Rightarrow> Inl e
      | Inr (obj, A1) \<Rightarrow>
          if obj \<noteq> None then Inr (obj, A1)
          else Inr (allocate_direct_or_new_plab A1 dest word_sz context))"

text \<open>\<^verbatim>\<open>G1ParGCAllocator::undo_allocation\<close>.\<close>

definition undo_allocation ::
  "('b, 'st) PLAB \<Rightarrow> ('b, 'h) G1DefaultParGCAllocator \<Rightarrow> InCSetState \<Rightarrow> HeapWord_ptr \<Rightarrow> nat
     \<Rightarrow> AllocationContext_t \<Rightarrow> error + ('b, 'h) G1DefaultParGCAllocator" where
  "undo_allocation P A dest obj word_sz context =
     (case alloc_buffer A dest context of
        Inl e \<Rightarrow> Inl e
      | Inr None \<Rightarrow> Inl Null_dereference
      | Inr (Some buffer) \<Rightarrow>
          (case G1PLAB_undo_allocation P (deref A buffer) obj word_sz of
             Inl e \<Rightarrow> Inl e
           | Inr b1 \<Rightarrow> Inr (store A buffer b1)))"


subsection \<open>G1DefaultAllocator\<close>

text \<open>
  Modelled from the spec: \<^verbatim>\<open>MutatorAllocRegion\<close> and its \<^verbatim>\<open>get\<close>
  (gc/g1/g1AllocRegion.hpp) are not among the sources. The spec's AllocRegion is
  \<^verbatim>\<open>{ region: Option<Region>, context }\<close>, and \<open>get\<close> is one load of \<^verbatim>\<open>region\<close>.
  Another thread may set that field to \<^verbatim>\<open>NULL\<close> at any moment ("Read only once in case
  it is set to NULL concurrently", says \<^verbatim>\<open>used_in_alloc_regions\<close>), so the field is not
  one value but the value each successive load finds: \<open>region_at r k\<close> is what the load
  number \<open>k\<close> returns, and \<open>loads r\<close> counts the loads done so far.
\<close>

record 'hr MutatorAllocRegion =
  region_at :: "nat \<Rightarrow> 'hr option"
  loads :: nat

definition MutatorAllocRegion_get ::
  "'hr MutatorAllocRegion \<Rightarrow> 'hr option \<times> 'hr MutatorAllocRegion" where
  "MutatorAllocRegion_get r = (region_at r (loads r), r\<lparr>loads := Suc (loads r)\<rparr>)"

text \<open>
  \<^verbatim>\<open>G1DefaultAllocator::used_in_alloc_regions\<close>. \<open>Heap_lock_owner\<close> is
  \<^verbatim>\<open>Heap_lock->owner()\<close>, a thread or \<^verbatim>\<open>NULL\<close>. \<^verbatim>\<open>HeapRegion::used\<close> is not among
  the sources: it is the parameter \<open>used\<close>, the bytes used in a region.
  \<^verbatim>\<open>mutator_alloc_region(context)\<close> returns the one mutator region whatever the
  context.
\<close>

record 'hr G1DefaultAllocator =
  Heap_lock_owner :: "nat option"
  mutator_alloc_region :: "'hr MutatorAllocRegion"

definition used_in_alloc_regions ::
  "('hr \<Rightarrow> size_t) \<Rightarrow> 'hr G1DefaultAllocator \<Rightarrow> error + (size_t \<times> 'hr G1DefaultAllocator)" where
  "used_in_alloc_regions used G =
     (case assert (Heap_lock_owner G \<noteq> None) ''Should be owned on this thread's behalf.'' of
        Inl e \<Rightarrow> Inl e
      | Inr _ \<Rightarrow>
          (let result = 0;
               (hr, r1) = MutatorAllocRegion_get (mutator_alloc_region G);
               G1 = G\<lparr>mutator_alloc_region := r1\<rparr>
           in (case hr of
                 Some region \<Rightarrow> Inr (result + used region, G1)
               | None \<Rightarrow> Inr (result, G1))))"

subsection \<open>The buffer of the spec\<close>

text \<open>
  Modelled from the spec: the member functions of \<^verbatim>\<open>PLAB\<close> (gc/shared/plab.hpp,
  plab.cpp) are not among the sources. The spec's Buffer is
  \<^verbatim>\<open>{ start, current, limit, retired }\<close> with \<open>start \<le> current \<le> limit\<close>; the flag
  \<open>retired\<close> is the field of \<open>G1PLAB\<close> above. \<open>buf_word_sz\<close> is the size the
  buffer was constructed with (\<^verbatim>\<open>G1PLAB(size_t gclab_word_size)\<close>); \<open>wasted\<close> and
  \<open>undo_wasted\<close> are the two counts the spec keeps apart. The spec names an allocated
  count too, but says of no operation that it changes it: it is left out. Addresses,
  word counts and the alignment are counted in one unit, as in the spec's own
  \<^verbatim>\<open>current + n <= limit\<close> and \<^verbatim>\<open>address mod k == 0\<close>.
  \<^item> "\<^verbatim>\<open>allocate(n)\<close> succeeds iff \<^verbatim>\<open>current + n <= limit\<close>; on success it returns the
    old \<^verbatim>\<open>current\<close> and advances it by \<^verbatim>\<open>n\<close>."
  \<^item> "\<^verbatim>\<open>allocate_aligned(n, align)\<close> first pads \<^verbatim>\<open>current\<close> up to the alignment
    boundary (recording the pad as waste) then performs the same check." A request
    that fails the check leaves the buffer as it was, so that \<open>current \<le> limit\<close> stays.
  \<^item> \<^verbatim>\<open>undo_allocation\<close>: "only valid if the address is the Buffer's current allocation
    frontier minus \<^verbatim>\<open>word_count\<close>", an address of the buffer; anything else "must be
    rejected or asserted against". The words given back are "bytes reclaimed via
    explicit undo (\<^verbatim>\<open>undo_wasted\<close>)".
  \<^item> Retirement: waste is "bytes consumed by alignment padding or buffer retirement";
    a buffer retired with 824 words left records "waste = 824".
  \<^item> \<^verbatim>\<open>flush_and_retire_stats\<close> retires and moves the counts into the sink.
  \<^item> \<^verbatim>\<open>set_buf\<close> re-points the buffer "at a fresh region segment".
\<close>

record Buffer =
  start :: nat
  current :: nat
  limit :: nat
  buf_word_sz :: nat
  wasted :: nat
  undo_wasted :: nat

record PLABStats =
  stats_wasted :: nat
  stats_undo_wasted :: nat


definition Buffer_set_buf :: "Buffer \<Rightarrow> HeapWord_ptr \<Rightarrow> Buffer" where
  "Buffer_set_buf b buf = b\<lparr>start := buf, current := buf, limit := buf + buf_word_sz b\<rparr>"

definition Buffer_allocate :: "Buffer \<Rightarrow> nat \<Rightarrow> HeapWord_ptr option \<times> Buffer" where
  "Buffer_allocate b n =
     (if current b + n \<le> limit b then (Some (current b), b\<lparr>current := current b + n\<rparr>)
      else (None, b))"

definition align_up :: "nat \<Rightarrow> nat \<Rightarrow> nat" where
  "align_up a k = (if a mod k = 0 then a else a + (k - a mod k))"

definition Buffer_allocate_aligned :: "Buffer \<Rightarrow> nat \<Rightarrow> uint \<Rightarrow> HeapWord_ptr option \<times> Buffer" where
  "Buffer_allocate_aligned b n alignment_in_bytes =
     (let padded = align_up (current b) (unat alignment_in_bytes)
      in if padded + n \<le> limit b
         then Buffer_allocate (b\<lparr>current := padded, wasted := wasted b + (padded - current b)\<rparr>) n
         else (None, b))"

definition Buffer_undo_allocation :: "Buffer \<Rightarrow> HeapWord_ptr \<Rightarrow> nat \<Rightarrow> error + Buffer" where
  "Buffer_undo_allocation b obj n =
     (if start b \<le> obj \<and> obj + n = current b
      then Inr (b\<lparr>current := obj, undo_wasted := undo_wasted b + n\<rparr>)
      else Inl (Contract_violation ''undo of an allocation that is not the most recent bump''))"

definition Buffer_retire :: "Buffer \<Rightarrow> Buffer" where
  "Buffer_retire b = b\<lparr>current := limit b, wasted := wasted b + (limit b - current b)\<rparr>"

definition Buffer_flush_and_retire_stats :: "Buffer \<Rightarrow> PLABStats \<Rightarrow> Buffer \<times> PLABStats" where
  "Buffer_flush_and_retire_stats b stats =
     (let b1 = Buffer_retire b
      in (b1\<lparr>wasted := 0, undo_wasted := 0\<rparr>,
          stats\<lparr>stats_wasted := stats_wasted stats + wasted b1,
                stats_undo_wasted := stats_undo_wasted stats + undo_wasted b1\<rparr>))"

definition Buffer_PLAB :: "(Buffer, PLABStats) PLAB" where
  "Buffer_PLAB =
     \<lparr>PLAB_set_buf = Buffer_set_buf,
      PLAB_retire = Buffer_retire,
      PLAB_flush_and_retire_stats = Buffer_flush_and_retire_stats,
      PLAB_allocate = Buffer_allocate,
      PLAB_allocate_aligned = Buffer_allocate_aligned,
      PLAB_undo_allocation = Buffer_undo_allocation\<rparr>"


subsection \<open>A worker's allocator at the start of a pause\<close>

text \<open>
  Modelled from the spec: the constructor of \<^verbatim>\<open>G1DefaultParGCAllocator\<close>
  (g1Allocator.cpp) is not among the sources. The worker "owns that thread's private
  Buffers (one per destination: survivor, old)": the array has a buffer for the tags
  \<open>Young\<close> and \<open>Old\<close> and \<^verbatim>\<open>NULL\<close> for \<open>NotInCSet\<close>. This is the state the
  functions are run on for concrete inputs; the survivor buffer holds the words 1003 to
  2026, the old buffer the words 4096 to 5119.
\<close>

definition example_survivor_buffer :: "Buffer G1PLAB" where
  "example_survivor_buffer =
     \<lparr>PLAB_part = \<lparr>start = 1003, current = 1003, limit = 2027, buf_word_sz = 1024,
                    wasted = 0, undo_wasted = 0\<rparr>,
      retired = False\<rparr>"

definition example_old_buffer :: "Buffer G1PLAB" where
  "example_old_buffer =
     \<lparr>PLAB_part = \<lparr>start = 4096, current = 4096, limit = 5120, buf_word_sz = 1024,
                    wasted = 0, undo_wasted = 0\<rparr>,
      retired = False\<rparr>"

definition example_allocator :: "uint \<Rightarrow> (Buffer, unit) G1DefaultParGCAllocator" where
  "example_allocator alignment =
     \<lparr>g1h = (),
      survivor_alignment_bytes = alignment,
      surviving_alloc_buffer = example_survivor_buffer,
      tenured_alloc_buffer = example_old_buffer,
      alloc_buffers = [None, Some surviving_alloc_buffer_ptr, Some tenured_alloc_buffer_ptr]\<rparr>"

text \<open>
  Modelled from the spec: \<^verbatim>\<open>allocate_direct_or_new_plab\<close> (g1Allocator.cpp) is not
  among the sources. Two stand-ins for it, for running \<open>allocate\<close> on concrete inputs.
  The first is the second tier on a heap that "has no more region capacity": it returns
  no address. The second is the second tier that serves the request by "a direct bump
  allocation in the shared region for that destination": the address it returns, 9000,
  lies in the shared region, outside both of the worker's buffers, which it leaves as
  they are.
\<close>

definition no_region_left ::
  "(Buffer, unit) G1DefaultParGCAllocator \<Rightarrow> InCSetState \<Rightarrow> nat \<Rightarrow> AllocationContext_t
     \<Rightarrow> HeapWord_ptr option \<times> (Buffer, unit) G1DefaultParGCAllocator" where
  "no_region_left A dest word_sz context = (None, A)"


section \<open>Theorems\<close>

subsection \<open>Pointers into the allocator\<close>

lemma alloc_buffer_store [simp]:
  "alloc_buffer (store A p b) dest context = alloc_buffer A dest context"
  by (cases p) (simp_all add: alloc_buffer_def assert_def)

lemma deref_store_same [simp]: "deref (store A p b) p = b"
  by (cases p) simp_all

lemma survivor_alignment_bytes_store [simp]:
  "survivor_alignment_bytes (store A p b) = survivor_alignment_bytes A"
  by (cases p) simp_all

lemma plab_allocate_returns:
  assumes "alloc_buffer A dest context = Inr (Some buffer)"
  shows "\<exists>obj b1. plab_allocate P A dest word_sz context = Inr (obj, store A buffer b1)"
  using assms
  by (auto simp: plab_allocate_def Let_def split: prod.splits)

lemma allocate_returns:
  assumes "alloc_buffer A dest context = Inr (Some buffer)"
  shows "\<exists>r. allocate allocate_direct_or_new_plab P A dest word_sz context = Inr r"
  using plab_allocate_returns [OF assms, of P word_sz]
  by (auto simp: allocate_def)

subsection \<open>The functions on the example allocator\<close>

lemmas example_defs =
  example_allocator_def example_survivor_buffer_def example_old_buffer_def
  Young_def Old_def NotInCSet_def Num_def is_valid_def is_young_def

lemmas Buffer_run_defs =
  Buffer_PLAB_def Buffer_allocate_def Buffer_allocate_aligned_def Buffer_undo_allocation_def
  Buffer_retire_def Buffer_flush_and_retire_stats_def Buffer_set_buf_def align_up_def
  G1PLAB_allocate_def G1PLAB_allocate_aligned_def G1PLAB_undo_allocation_def
  G1PLAB_retire_def G1PLAB_flush_and_retire_stats_def G1PLAB_set_buf_def

lemma example_alloc_buffer_Young:
  "alloc_buffer (example_allocator al) (InCSetState Young) 0 = Inr (Some surviving_alloc_buffer_ptr)"
  by (simp add: alloc_buffer_def assert_def example_defs)

lemma example_plab_100:
  "plab_allocate Buffer_PLAB (example_allocator 0) (InCSetState Young) 100 0 =
     Inr (Some 1003, (example_allocator 0)\<lparr>surviving_alloc_buffer :=
            example_survivor_buffer\<lparr>PLAB_part :=
              (PLAB_part example_survivor_buffer)\<lparr>current := 1103\<rparr>\<rparr>\<rparr>)"
  by (simp add: plab_allocate_def example_alloc_buffer_Young)
     (simp add: example_defs Buffer_run_defs)

lemma example_plab_2000:
  "plab_allocate Buffer_PLAB (example_allocator 0) (InCSetState Young) 2000 0 =
     Inr (None, example_allocator 0)"
  by (simp add: plab_allocate_def example_alloc_buffer_Young)
     (simp add: example_defs Buffer_run_defs)

lemma example_plab_aligned_100:
  "plab_allocate Buffer_PLAB (example_allocator 8) (InCSetState Young) 100 0 =
     Inr (Some 1008, (example_allocator 8)\<lparr>surviving_alloc_buffer :=
            example_survivor_buffer\<lparr>PLAB_part :=
              (PLAB_part example_survivor_buffer)\<lparr>current := 1108, wasted := 5\<rparr>\<rparr>\<rparr>)"
  by (simp add: plab_allocate_def example_alloc_buffer_Young)
     (simp add: example_defs Buffer_run_defs)


subsection \<open>The two tiers of allocate\<close>

text \<open>
  C1. \<open>allocate\<close> first asks \<open>plab_allocate\<close>, which works on the worker's buffer for
  the destination and on nothing else of the allocator. An address it returns is the
  result of \<open>allocate\<close>, whatever \<open>allocate_direct_or_new_plab\<close> would do; only when
  it returns no address is \<open>allocate_direct_or_new_plab\<close> called, on the state
  \<open>plab_allocate\<close> left, and its result, address or none, is the result of
  \<open>allocate\<close>. A failed assertion of \<open>alloc_buffer\<close> is the only other outcome.
\<close>

theorem allocate_two_tier:
  "(\<forall>a A1. plab_allocate P A dest word_sz context = Inr (Some a, A1)
        \<longrightarrow> allocate allocate_direct_or_new_plab P A dest word_sz context = Inr (Some a, A1))
   \<and> (\<forall>A1. plab_allocate P A dest word_sz context = Inr (None, A1)
        \<longrightarrow> allocate allocate_direct_or_new_plab P A dest word_sz context
              = Inr (allocate_direct_or_new_plab A1 dest word_sz context))
   \<and> (\<forall>e. plab_allocate P A dest word_sz context = Inl e
        \<longrightarrow> allocate allocate_direct_or_new_plab P A dest word_sz context = Inl e)
   \<and> (\<forall>buffer obj A1. alloc_buffer A dest context = Inr (Some buffer)
          \<and> plab_allocate P A dest word_sz context = Inr (obj, A1)
        \<longrightarrow> (\<exists>b1. A1 = store A buffer b1))"
  by (auto simp: allocate_def plab_allocate_def Let_def split: prod.splits if_splits)

theorem allocate_two_tier_witness:
  "allocate no_region_left Buffer_PLAB (example_allocator 0) (InCSetState Young) 100 0 =
     Inr (Some 1003, (example_allocator 0)\<lparr>surviving_alloc_buffer :=
            example_survivor_buffer\<lparr>PLAB_part :=
              (PLAB_part example_survivor_buffer)\<lparr>current := 1103\<rparr>\<rparr>\<rparr>)
   \<and> allocate no_region_left Buffer_PLAB (example_allocator 0) (InCSetState Young) 2000 0 =
       Inr (no_region_left (example_allocator 0) (InCSetState Young) 2000 0)"
  using allocate_two_tier [of Buffer_PLAB "example_allocator 0" "InCSetState Young" 100 0
          no_region_left]
        allocate_two_tier [of Buffer_PLAB "example_allocator 0" "InCSetState Young" 2000 0
          no_region_left]
        example_plab_100 example_plab_2000
  by blast

text \<open>
  C7. For a destination that has a buffer, \<open>allocate\<close> always returns normally, with an
  address or with none; it returns no address if and only if \<open>plab_allocate\<close> returned
  none and \<open>allocate_direct_or_new_plab\<close>, called on the state that left, returned
  none as well.
\<close>

theorem allocate_no_address_iff:
  assumes "alloc_buffer A dest context = Inr (Some buffer)"
  shows "\<exists>obj A2. allocate allocate_direct_or_new_plab P A dest word_sz context = Inr (obj, A2)
           \<and> (obj = None \<longleftrightarrow>
                (\<exists>A1. plab_allocate P A dest word_sz context = Inr (None, A1)
                     \<and> fst (allocate_direct_or_new_plab A1 dest word_sz context) = None))"
proof -
  from plab_allocate_returns [OF assms] obtain obj1 A1
    where plab: "plab_allocate P A dest word_sz context = Inr (obj1, A1)"
    by blast
  show ?thesis
  proof (cases obj1)
    case (Some a)
    with plab show ?thesis
      by (simp add: allocate_def)
  next
    case None
    obtain obj2 A2 where direct: "allocate_direct_or_new_plab A1 dest word_sz context = (obj2, A2)"
      by (cases "allocate_direct_or_new_plab A1 dest word_sz context")
    from plab None direct show ?thesis
      by (simp add: allocate_def)
  qed
qed

theorem allocate_no_address_iff_witness:
  "alloc_buffer (example_allocator 0) (InCSetState Young) 0 = Inr (Some surviving_alloc_buffer_ptr)
   \<and> (\<exists>A2. allocate no_region_left Buffer_PLAB (example_allocator 0) (InCSetState Young) 2000 0
              = Inr (None, A2))
   \<and> (\<exists>obj A2. allocate no_region_left Buffer_PLAB (example_allocator 0) (InCSetState Young) 100 0
              = Inr (obj, A2) \<and> obj \<noteq> None)"
proof -
  note b = example_alloc_buffer_Young [of 0]
  have none: "fst (no_region_left A1 (InCSetState Young) 2000 0) = None" for A1
    by (simp add: no_region_left_def)
  from allocate_no_address_iff [OF b, of no_region_left Buffer_PLAB 2000]
    example_plab_2000 none
  have 1: "\<exists>A2. allocate no_region_left Buffer_PLAB (example_allocator 0) (InCSetState Young) 2000 0
              = Inr (None, A2)"
    by auto
  from allocate_no_address_iff [OF b, of no_region_left Buffer_PLAB 100] example_plab_100
  have 2: "\<exists>obj A2. allocate no_region_left Buffer_PLAB (example_allocator 0) (InCSetState Young) 100 0
              = Inr (obj, A2) \<and> obj \<noteq> None"
    by auto
  from b 1 2 show ?thesis by blast
qed

subsection \<open>Survivor alignment in plab_allocate\<close>

lemma align_up_mod:
  assumes "0 < k"
  shows "align_up a k mod k = 0"
proof (cases "a mod k = 0")
  case True
  then show ?thesis by (simp add: align_up_def)
next
  case False
  have "a mod k < k" using assms by simp
  then have "a + (k - a mod k) = (a div k) * k + k"
    using div_mult_mod_eq [of a k] by arith
  then show ?thesis using False by (simp add: align_up_def)
qed



lemma Buffer_allocate_Some:
  "Buffer_allocate b n = (Some a, b1) \<longleftrightarrow> current b + n \<le> limit b \<and> a = current b \<and> b1 = b\<lparr>current := current b + n\<rparr>"
  by (auto simp: Buffer_allocate_def)

lemma Buffer_allocate_aligned_Some:
  "Buffer_allocate_aligned b n k = (Some a, b1) \<longleftrightarrow>
     align_up (current b) (unat k) + n \<le> limit b \<and> a = align_up (current b) (unat k)
     \<and> b1 = b\<lparr>current := a + n, wasted := wasted b + (a - current b)\<rparr>"
  by (auto simp: Buffer_allocate_aligned_def Buffer_allocate_def Let_def)

text \<open>
  C2. \<open>plab_allocate\<close> makes the aligned request, with the configured survivor
  alignment, exactly when that alignment is non-zero and the destination is the young
  tag, and the plain request for every other combination. With the buffer of the spec
  as the base class, an address returned to an aligned request is the frontier padded up
  to a multiple of the alignment, so \<open>a mod k = 0\<close>; an address returned to a plain
  request is the frontier itself, with no padding.
\<close>

theorem plab_allocate_survivor_alignment:
  assumes "alloc_buffer A dest context = Inr (Some buffer)"
  shows "(survivor_alignment_bytes A \<noteq> 0 \<and> is_young dest \<longrightarrow>
            plab_allocate P A dest word_sz context =
              (let (obj, b1) = G1PLAB_allocate_aligned P (deref A buffer) word_sz
                                 (survivor_alignment_bytes A)
               in Inr (obj, store A buffer b1)))
       \<and> (survivor_alignment_bytes A = 0 \<or> \<not> is_young dest \<longrightarrow>
            plab_allocate P A dest word_sz context =
              (let (obj, b1) = G1PLAB_allocate P (deref A buffer) word_sz
               in Inr (obj, store A buffer b1)))
       \<and> (\<forall>a A1. survivor_alignment_bytes A \<noteq> 0 \<and> is_young dest
               \<and> plab_allocate Buffer_PLAB A dest word_sz context = Inr (Some a, A1)
             \<longrightarrow> a mod unat (survivor_alignment_bytes A) = 0
                 \<and> a = align_up (current (PLAB_part (deref A buffer)))
                                (unat (survivor_alignment_bytes A)))
       \<and> (\<forall>a A1. (survivor_alignment_bytes A = 0 \<or> \<not> is_young dest)
               \<and> plab_allocate Buffer_PLAB A dest word_sz context = Inr (Some a, A1)
             \<longrightarrow> a = current (PLAB_part (deref A buffer)))"
proof (intro conjI allI impI)
  assume "survivor_alignment_bytes A \<noteq> 0 \<and> is_young dest"
  with assms show "plab_allocate P A dest word_sz context =
      (let (obj, b1) = G1PLAB_allocate_aligned P (deref A buffer) word_sz
                         (survivor_alignment_bytes A)
       in Inr (obj, store A buffer b1))"
    by (simp add: plab_allocate_def)
next
  assume "survivor_alignment_bytes A = 0 \<or> \<not> is_young dest"
  with assms show "plab_allocate P A dest word_sz context =
      (let (obj, b1) = G1PLAB_allocate P (deref A buffer) word_sz
       in Inr (obj, store A buffer b1))"
    by (auto simp: plab_allocate_def)
next
  fix a A1
  assume h: "survivor_alignment_bytes A \<noteq> 0 \<and> is_young dest
      \<and> plab_allocate Buffer_PLAB A dest word_sz context = Inr (Some a, A1)"
  then have pos: "0 < unat (survivor_alignment_bytes A)"
    by (simp add: unat_gt_0)
  from h assms have "fst (Buffer_allocate_aligned (PLAB_part (deref A buffer)) word_sz
                       (survivor_alignment_bytes A)) = Some a"
    by (auto simp: plab_allocate_def G1PLAB_allocate_aligned_def Buffer_PLAB_def Let_def
        split: prod.splits)
  then have a: "a = align_up (current (PLAB_part (deref A buffer)))
                     (unat (survivor_alignment_bytes A))"
    by (cases "Buffer_allocate_aligned (PLAB_part (deref A buffer)) word_sz
                 (survivor_alignment_bytes A)")
       (simp add: Buffer_allocate_aligned_Some)
  with pos show "a mod unat (survivor_alignment_bytes A) = 0"
    by (simp add: align_up_mod)
  from a show "a = align_up (current (PLAB_part (deref A buffer)))
                     (unat (survivor_alignment_bytes A))" .
next
  fix a A1
  assume h: "(survivor_alignment_bytes A = 0 \<or> \<not> is_young dest)
      \<and> plab_allocate Buffer_PLAB A dest word_sz context = Inr (Some a, A1)"
  with assms have "fst (Buffer_allocate (PLAB_part (deref A buffer)) word_sz) = Some a"
    by (auto simp: plab_allocate_def G1PLAB_allocate_def Buffer_PLAB_def Let_def
        split: prod.splits)
  then show "a = current (PLAB_part (deref A buffer))"
    by (cases "Buffer_allocate (PLAB_part (deref A buffer)) word_sz")
       (simp add: Buffer_allocate_Some)
qed

theorem plab_allocate_survivor_alignment_witness:
  "alloc_buffer (example_allocator 8) (InCSetState Young) 0 = Inr (Some surviving_alloc_buffer_ptr)
   \<and> survivor_alignment_bytes (example_allocator 8) = 8 \<and> is_young (InCSetState Young)
   \<and> plab_allocate Buffer_PLAB (example_allocator 8) (InCSetState Young) 100 0 =
       Inr (Some 1008, (example_allocator 8)\<lparr>surviving_alloc_buffer :=
            example_survivor_buffer\<lparr>PLAB_part :=
              (PLAB_part example_survivor_buffer)\<lparr>current := 1108, wasted := 5\<rparr>\<rparr>\<rparr>)
   \<and> (1008::nat) mod unat (survivor_alignment_bytes (example_allocator 8)) = 0"
proof -
  note b = example_alloc_buffer_Young [of 8]
  have al: "survivor_alignment_bytes (example_allocator 8) = 8"
    by (simp add: example_allocator_def)
  have y: "is_young (InCSetState Young)"
    by (simp add: is_young_def)
  from plab_allocate_survivor_alignment [OF b, of Buffer_PLAB 100] al y example_plab_aligned_100
  have "(1008::nat) mod unat (survivor_alignment_bytes (example_allocator 8)) = 0"
    by auto
  with b al y example_plab_aligned_100 show ?thesis by blast
qed

subsection \<open>Undoing an allocation\<close>












subsection \<open>Retirement\<close>

lemma G1PLAB_step_retired:
  assumes "G1PLAB_step P x (b, stats) = Inr (b1, stats1)" and "retired b"
    and "\<forall>buf. x \<noteq> Op_set_buf buf"
  shows "retired b1"
  using assms
  by (cases x)
     (auto simp: G1PLAB_retire_def G1PLAB_flush_and_retire_stats_def G1PLAB_allocate_def
        G1PLAB_allocate_aligned_def G1PLAB_undo_allocation_def Let_def
        split: prod.splits sum.splits)

lemma G1PLAB_run_retired:
  assumes "G1PLAB_run P ops s = Inr s1" and "retired (fst s)"
    and "\<forall>buf. Op_set_buf buf \<notin> set ops"
  shows "retired (fst s1)"
  using assms
proof (induction ops arbitrary: s)
  case Nil
  then show ?case by simp
next
  case (Cons x xs)
  from Cons.prems(1) obtain s2 where step: "G1PLAB_step P x s = Inr s2"
    and run: "G1PLAB_run P xs s2 = Inr s1"
    by (auto split: sum.splits)
  from Cons.prems(3) have nx: "\<forall>buf. x \<noteq> Op_set_buf buf" by auto
  have "retired (fst s2)"
    using G1PLAB_step_retired [of P x "fst s" "snd s" "fst s2" "snd s2"] step Cons.prems(2) nx
    by simp
  with Cons.IH [OF run] Cons.prems(3) show ?case by simp
qed

lemma G1PLAB_retire_retired: "retired b \<Longrightarrow> G1PLAB_retire P b = b"
  by (simp add: G1PLAB_retire_def)

lemma retired_G1PLAB_retire: "retired (G1PLAB_retire P b)"
  by (simp add: G1PLAB_retire_def)

lemma retired_G1PLAB_flush: "retired (fst (G1PLAB_flush_and_retire_stats P b stats))"
  by (simp add: G1PLAB_flush_and_retire_stats_def split: prod.splits)

text \<open>
  C5. \<open>retire\<close> on a buffer that \<open>retire\<close> or \<open>flush_and_retire_stats\<close> has retired
  returns the buffer as it is. The same holds after any further calls on the buffer
  other than \<open>set_buf\<close>: a later \<open>retire\<close> changes neither the buffer, its waste
  counts included, nor the statistics sink. This holds for every implementation of the
  base class.
\<close>

theorem retire_twice_idempotent:
  "G1PLAB_retire P (G1PLAB_retire P b) = G1PLAB_retire P b
   \<and> G1PLAB_retire P (fst (G1PLAB_flush_and_retire_stats P b stats))
       = fst (G1PLAB_flush_and_retire_stats P b stats)
   \<and> (\<forall>ops s1. (\<forall>buf. Op_set_buf buf \<notin> set ops)
          \<and> (G1PLAB_run P (Op_retire # ops) (b, stats) = Inr s1
             \<or> G1PLAB_run P (Op_flush_and_retire_stats # ops) (b, stats) = Inr s1)
        \<longrightarrow> G1PLAB_step P Op_retire s1 = Inr s1)"
proof (intro conjI allI impI)
  show "G1PLAB_retire P (G1PLAB_retire P b) = G1PLAB_retire P b"
    by (rule G1PLAB_retire_retired [OF retired_G1PLAB_retire])
  show "G1PLAB_retire P (fst (G1PLAB_flush_and_retire_stats P b stats))
          = fst (G1PLAB_flush_and_retire_stats P b stats)"
    by (rule G1PLAB_retire_retired [OF retired_G1PLAB_flush])
next
  fix ops s1
  assume h: "(\<forall>buf. Op_set_buf buf \<notin> set ops)
          \<and> (G1PLAB_run P (Op_retire # ops) (b, stats) = Inr s1
             \<or> G1PLAB_run P (Op_flush_and_retire_stats # ops) (b, stats) = Inr s1)"
  then have "\<exists>s0. retired (fst s0) \<and> G1PLAB_run P ops s0 = Inr s1"
  proof (elim conjE disjE)
    assume "G1PLAB_run P (Op_retire # ops) (b, stats) = Inr s1"
    then have "G1PLAB_run P ops (G1PLAB_retire P b, stats) = Inr s1" by simp
    then show ?thesis using retired_G1PLAB_retire [of P b] by fastforce
  next
    assume "G1PLAB_run P (Op_flush_and_retire_stats # ops) (b, stats) = Inr s1"
    then have "G1PLAB_run P ops (G1PLAB_flush_and_retire_stats P b stats) = Inr s1" by simp
    then show ?thesis using retired_G1PLAB_flush [of P b stats] by blast
  qed
  then obtain s0 where "retired (fst s0)" "G1PLAB_run P ops s0 = Inr s1" by blast
  with h have "retired (fst s1)"
    using G1PLAB_run_retired by blast
  then show "G1PLAB_step P Op_retire s1 = Inr s1"
    by (cases s1) (simp add: G1PLAB_retire_retired)
qed

theorem retire_twice_idempotent_witness:
  "(\<forall>buf. Op_set_buf buf \<notin> set [Op_allocate 8])
   \<and> G1PLAB_run Buffer_PLAB [Op_retire, Op_allocate 8]
        (example_survivor_buffer, \<lparr>stats_wasted = 0, stats_undo_wasted = 0\<rparr>)
       = Inr (\<lparr>PLAB_part = \<lparr>start = 1003, current = 2027, limit = 2027, buf_word_sz = 1024,
                              wasted = 1024, undo_wasted = 0\<rparr>, retired = True\<rparr>,
              \<lparr>stats_wasted = 0, stats_undo_wasted = 0\<rparr>)
   \<and> G1PLAB_step Buffer_PLAB Op_retire
        (\<lparr>PLAB_part = \<lparr>start = 1003, current = 2027, limit = 2027, buf_word_sz = 1024,
                        wasted = 1024, undo_wasted = 0\<rparr>, retired = True\<rparr>,
         \<lparr>stats_wasted = 0, stats_undo_wasted = 0\<rparr>)
       = Inr (\<lparr>PLAB_part = \<lparr>start = 1003, current = 2027, limit = 2027, buf_word_sz = 1024,
                              wasted = 1024, undo_wasted = 0\<rparr>, retired = True\<rparr>,
              \<lparr>stats_wasted = 0, stats_undo_wasted = 0\<rparr>)"
proof -
  have ns: "\<forall>buf. Op_set_buf buf \<notin> set [Op_allocate 8]"
    by simp
  have run: "G1PLAB_run Buffer_PLAB [Op_retire, Op_allocate 8]
        (example_survivor_buffer, \<lparr>stats_wasted = 0, stats_undo_wasted = 0\<rparr>)
       = Inr (\<lparr>PLAB_part = \<lparr>start = 1003, current = 2027, limit = 2027, buf_word_sz = 1024,
                              wasted = 1024, undo_wasted = 0\<rparr>, retired = True\<rparr>,
              \<lparr>stats_wasted = 0, stats_undo_wasted = 0\<rparr>)"
    by (simp add: example_defs Buffer_run_defs)
  from retire_twice_idempotent [of Buffer_PLAB example_survivor_buffer
         "\<lparr>stats_wasted = 0, stats_undo_wasted = 0\<rparr>"] ns run
  show ?thesis by blast
qed

text \<open>
  C6. The destructor's \<open>guarantee\<close> passes exactly when the buffer is retired, and
  fails with its message exactly when it is not. A buffer just retired by \<open>retire\<close> or
  \<open>flush_and_retire_stats\<close> passes; a buffer just re-pointed by \<open>set_buf\<close> fails.
\<close>

theorem destructor_guarantee:
  "(G1PLAB_destroy b = Inr () \<longleftrightarrow> retired b)
   \<and> (G1PLAB_destroy b = Inl (Guarantee_failed ''Allocation buffer has not been retired'')
        \<longleftrightarrow> \<not> retired b)
   \<and> G1PLAB_destroy (G1PLAB_retire P b) = Inr ()
   \<and> G1PLAB_destroy (fst (G1PLAB_flush_and_retire_stats P b stats)) = Inr ()
   \<and> G1PLAB_destroy (G1PLAB_set_buf P b buf)
        = Inl (Guarantee_failed ''Allocation buffer has not been retired'')"
  by (simp add: G1PLAB_destroy_def guarantee_def G1PLAB_retire_def
      G1PLAB_flush_and_retire_stats_def G1PLAB_set_buf_def Let_def split: prod.split)

theorem destructor_guarantee_witness:
  "G1PLAB_destroy example_survivor_buffer
     = Inl (Guarantee_failed ''Allocation buffer has not been retired'')
   \<and> G1PLAB_destroy (G1PLAB_retire Buffer_PLAB example_survivor_buffer) = Inr ()
   \<and> G1PLAB_destroy (G1PLAB_set_buf Buffer_PLAB
         (G1PLAB_retire Buffer_PLAB example_survivor_buffer) 8192)
       = Inl (Guarantee_failed ''Allocation buffer has not been retired'')"
proof -
  have "\<not> retired example_survivor_buffer"
    by (simp add: example_survivor_buffer_def)
  with destructor_guarantee [of example_survivor_buffer Buffer_PLAB]
    destructor_guarantee [of "G1PLAB_retire Buffer_PLAB example_survivor_buffer" Buffer_PLAB _ 8192]
  show ?thesis by blast
qed

subsection \<open>Bytes used in the mutator region\<close>

text \<open>
  C8. With the heap lock owned, \<open>used_in_alloc_regions\<close> performs exactly one load of the
  mutator region pointer and returns the bytes used in the region that load found, or 0
  when it found \<^verbatim>\<open>NULL\<close>; what later loads would find has no influence on the result.
\<close>

theorem used_in_alloc_regions_reads_once:
  assumes "Heap_lock_owner G \<noteq> None"
  shows "used_in_alloc_regions used G =
           Inr (case region_at (mutator_alloc_region G) (loads (mutator_alloc_region G)) of
                  None \<Rightarrow> 0
                | Some region \<Rightarrow> used region,
                G\<lparr>mutator_alloc_region :=
                    (mutator_alloc_region G)\<lparr>loads := Suc (loads (mutator_alloc_region G))\<rparr>\<rparr>)"
  using assms
  by (simp add: used_in_alloc_regions_def assert_def MutatorAllocRegion_get_def
      split: option.split)

theorem used_in_alloc_regions_reads_once_witness:
  "Heap_lock_owner \<lparr>Heap_lock_owner = Some 1,
       mutator_alloc_region = \<lparr>region_at = (\<lambda>k. if k = 0 then Some (7::nat) else None),
                                loads = 0\<rparr>\<rparr> \<noteq> None
   \<and> used_in_alloc_regions (\<lambda>hr. 512)
       \<lparr>Heap_lock_owner = Some 1,
        mutator_alloc_region = \<lparr>region_at = (\<lambda>k. if k = 0 then Some (7::nat) else None),
                                 loads = 0\<rparr>\<rparr>
     = Inr (512, \<lparr>Heap_lock_owner = Some 1,
                  mutator_alloc_region = \<lparr>region_at = (\<lambda>k. if k = 0 then Some 7 else None),
                                           loads = Suc 0\<rparr>\<rparr>)
   \<and> used_in_alloc_regions (\<lambda>hr. 512)
       \<lparr>Heap_lock_owner = Some 1,
        mutator_alloc_region = \<lparr>region_at = (\<lambda>k. if k = 0 then Some (7::nat) else None),
                                 loads = Suc 0\<rparr>\<rparr>
     = Inr (0, \<lparr>Heap_lock_owner = Some 1,
                mutator_alloc_region = \<lparr>region_at = (\<lambda>k. if k = 0 then Some 7 else None),
                                         loads = Suc (Suc 0)\<rparr>\<rparr>)"
  using used_in_alloc_regions_reads_once
          [of "\<lparr>Heap_lock_owner = Some 1,
                mutator_alloc_region = \<lparr>region_at = (\<lambda>k. if k = 0 then Some (7::nat) else None),
                                         loads = 0\<rparr>\<rparr>" "\<lambda>hr. 512"]
        used_in_alloc_regions_reads_once
          [of "\<lparr>Heap_lock_owner = Some 1,
                mutator_alloc_region = \<lparr>region_at = (\<lambda>k. if k = 0 then Some (7::nat) else None),
                                         loads = Suc 0\<rparr>\<rparr>" "\<lambda>hr. 512"]
  by simp

subsection \<open>Survivor alignment\<close>






subsection \<open>The buffer of a destination\<close>

text \<open>
  C10, as amended. For a valid destination tag and an array of \<open>Num\<close> entries the read of
  \<open>_alloc_buffers\<close> is in bounds. \<open>alloc_buffer\<close> returns the entry, a pointer that is
  not \<^verbatim>\<open>NULL\<close>, exactly when the entry holds a buffer; \<open>plab_allocate\<close>, \<open>allocate\<close>
  and \<open>undo_allocation\<close> then reach that buffer and no assertion fails. When the entry
  of a valid tag is \<^verbatim>\<open>NULL\<close>, the second assertion of \<open>alloc_buffer\<close> fails.
\<close>

theorem alloc_buffer_valid_dest:
  assumes "is_valid dest" and "int (length (alloc_buffers A)) = Num"
  shows "nat (state_value dest) < length (alloc_buffers A)
       \<and> (\<forall>buffer. alloc_buffers A ! nat (state_value dest) = Some buffer \<longrightarrow>
             alloc_buffer A dest context = Inr (Some buffer)
           \<and> (\<exists>obj b1. plab_allocate P A dest word_sz context = Inr (obj, store A buffer b1))
           \<and> (\<exists>r. allocate allocate_direct_or_new_plab P A dest word_sz context = Inr r)
           \<and> undo_allocation P A dest obj word_sz context =
                (case G1PLAB_undo_allocation P (deref A buffer) obj word_sz of
                   Inl e \<Rightarrow> Inl e
                 | Inr b1 \<Rightarrow> Inr (store A buffer b1)))
       \<and> (alloc_buffers A ! nat (state_value dest) = None \<longrightarrow>
             alloc_buffer A dest context = Inl (Assertion_failed ''Allocation buffer is NULL''))"
proof -
  from assms have inb: "0 \<le> state_value dest" "nat (state_value dest) < length (alloc_buffers A)"
    by (auto simp: is_valid_def)
  have null: "alloc_buffer A dest context = Inl (Assertion_failed ''Allocation buffer is NULL'')"
    if "alloc_buffers A ! nat (state_value dest) = None"
    using that assms(1) inb by (simp add: alloc_buffer_def assert_def)
  have ok: "alloc_buffer A dest context = Inr (Some buffer)"
    if "alloc_buffers A ! nat (state_value dest) = Some buffer" for buffer
    using that assms(1) inb by (simp add: alloc_buffer_def assert_def)
  have alloc: "\<exists>r. allocate allocate_direct_or_new_plab P A dest word_sz context = Inr r"
    if "alloc_buffers A ! nat (state_value dest) = Some buffer" for buffer
    using allocate_returns [OF ok [OF that]] by blast
  have undo: "undo_allocation P A dest obj word_sz context =
                (case G1PLAB_undo_allocation P (deref A buffer) obj word_sz of
                   Inl e \<Rightarrow> Inl e
                 | Inr b1 \<Rightarrow> Inr (store A buffer b1))"
    if "alloc_buffers A ! nat (state_value dest) = Some buffer" for buffer
    using ok [OF that] by (simp add: undo_allocation_def)
  show ?thesis
    using inb(2) null ok alloc undo plab_allocate_returns by blast
qed

theorem alloc_buffer_valid_dest_witness:
  "is_valid (InCSetState Young)
   \<and> int (length (alloc_buffers (example_allocator 0))) = Num
   \<and> alloc_buffers (example_allocator 0) ! nat (state_value (InCSetState Young))
       = Some surviving_alloc_buffer_ptr
   \<and> alloc_buffer (example_allocator 0) (InCSetState Young) 0 = Inr (Some surviving_alloc_buffer_ptr)
   \<and> (\<exists>r. allocate no_region_left Buffer_PLAB (example_allocator 0) (InCSetState Young) 100 0 = Inr r)"
proof -
  have v: "is_valid (InCSetState Young)"
    by (simp add: example_defs)
  have n: "int (length (alloc_buffers (example_allocator 0))) = Num"
    by (simp add: example_defs)
  have e: "alloc_buffers (example_allocator 0) ! nat (state_value (InCSetState Young))
             = Some surviving_alloc_buffer_ptr"
    by (simp add: example_defs)
  from alloc_buffer_valid_dest [OF v n, of 0 Buffer_PLAB 100 no_region_left] e v n
  show ?thesis by blast
qed

text \<open>
  The claim as stated, that a valid tag alone makes the returned pointer non-null, fails
  for the tag \<open>NotInCSet\<close>: it is a valid index, the worker holds no buffer for it, and
  the second assertion of \<open>alloc_buffer\<close> is there for it.
\<close>

theorem alloc_buffer_valid_dest_null_counterexample:
  "is_valid (InCSetState NotInCSet)
   \<and> int (length (alloc_buffers (example_allocator 0))) = Num
   \<and> alloc_buffer (example_allocator 0) (InCSetState NotInCSet) 0
       = Inl (Assertion_failed ''Allocation buffer is NULL'')"
  by (simp add: is_valid_def NotInCSet_def Num_def example_allocator_def alloc_buffer_def assert_def)

end
